theory Spec2Isabelle
  imports Main
begin

section \<open>Python strings\<close>

text \<open>
  Python \<^verbatim>\<open>str\<close> values are modelled as \<^typ>\<open>string\<close>. The model covers ASCII text:
  a character above 127 is left alone by \<open>lower\<close> and is neither a letter, a digit nor
  white space. Every URL the theorems below evaluate is plain ASCII.
\<close>

definition is_upper :: "char \<Rightarrow> bool" where
  "is_upper c = (65 \<le> (of_char c :: nat) \<and> (of_char c :: nat) \<le> 90)"

definition is_lower :: "char \<Rightarrow> bool" where
  "is_lower c = (97 \<le> (of_char c :: nat) \<and> (of_char c :: nat) \<le> 122)"

definition is_digit :: "char \<Rightarrow> bool" where
  "is_digit c = (48 \<le> (of_char c :: nat) \<and> (of_char c :: nat) \<le> 57)"

definition is_alnum :: "char \<Rightarrow> bool" where
  "is_alnum c = (is_upper c \<or> is_lower c \<or> is_digit c)"

text \<open>White space as \<^verbatim>\<open>str.isspace\<close> and the pattern \<^verbatim>\<open>\s\<close> see it below 128:
  tab, line feed, vertical tab, form feed, carriage return, the four separators
  28 to 31, and the blank.\<close>

definition is_space :: "char \<Rightarrow> bool" where
  "is_space c = ((9 \<le> (of_char c :: nat) \<and> (of_char c :: nat) \<le> 13)
                \<or> (28 \<le> (of_char c :: nat) \<and> (of_char c :: nat) \<le> 32))"

definition to_lower :: "char \<Rightarrow> char" where
  "to_lower c = (if is_upper c then char_of ((of_char c :: nat) + 32) else c)"

definition lower :: "string \<Rightarrow> string" where
  "lower s = map to_lower s"

definition strip :: "string \<Rightarrow> string" where
  "strip s = rev (dropWhile is_space (rev (dropWhile is_space s)))"

fun startswith :: "string \<Rightarrow> string \<Rightarrow> bool" where
  "startswith s [] = True"
| "startswith [] (p # ps) = False"
| "startswith (c # cs) (p # ps) = (c = p \<and> startswith cs ps)"

text \<open>\<^verbatim>\<open>sub in s\<close>\<close>

fun contains :: "string \<Rightarrow> string \<Rightarrow> bool" where
  "contains [] sub = (sub = [])"
| "contains (c # cs) sub = (startswith (c # cs) sub \<or> contains cs sub)"

text \<open>\<^verbatim>\<open>s.isdigit()\<close> and \<^verbatim>\<open>s.isalnum()\<close> are false on the empty string.\<close>

definition isdigit :: "string \<Rightarrow> bool" where
  "isdigit s = (s \<noteq> [] \<and> list_all is_digit s)"

definition isalnum :: "string \<Rightarrow> bool" where
  "isalnum s = (s \<noteq> [] \<and> list_all is_alnum s)"

text \<open>
  \<^verbatim>\<open>s.split(sep)\<close> for a non-empty separator: the pieces between the occurrences of
  \<open>sep\<close>, found left to right without overlap. \<open>skip\<close> counts the characters of an
  occurrence still to be passed over, \<open>cur\<close> holds the current piece reversed.
\<close>

fun split_aux :: "string \<Rightarrow> nat \<Rightarrow> string \<Rightarrow> string \<Rightarrow> string list" where
  "split_aux sep skip cur [] = [rev cur]"
| "split_aux sep (Suc k) cur (c # cs) = split_aux sep k cur cs"
| "split_aux sep 0 cur (c # cs) =
     (if startswith (c # cs) sep
      then rev cur # split_aux sep (length sep - 1) [] cs
      else split_aux sep 0 (c # cur) cs)"

definition split :: "string \<Rightarrow> string \<Rightarrow> string list" where
  "split s sep = split_aux sep 0 [] s"

text \<open>\<^verbatim>\<open>s.replace(old, new)\<close> for a non-empty \<open>old\<close>.\<close>

fun replace_aux :: "string \<Rightarrow> string \<Rightarrow> nat \<Rightarrow> string \<Rightarrow> string" where
  "replace_aux old new skip [] = []"
| "replace_aux old new (Suc k) (c # cs) = replace_aux old new k cs"
| "replace_aux old new 0 (c # cs) =
     (if startswith (c # cs) old
      then new @ replace_aux old new (length old - 1) cs
      else c # replace_aux old new 0 cs)"

definition replace :: "string \<Rightarrow> string \<Rightarrow> string \<Rightarrow> string" where
  "replace s old new = replace_aux old new 0 s"

section \<open>The regular expressions of link\_utils.py\<close>

text \<open>
  The patterns of the module use literals, character classes, \<^verbatim>\<open>?\<close>, \<^verbatim>\<open>+\<close> on a
  class and one negative look-ahead; all are compiled with \<^verbatim>\<open>re.IGNORECASE\<close>, so a
  literal matches both cases. \<open>pmatch p s\<close> lists what is left of \<open>s\<close> after each way
  of matching \<open>p\<close> at its start, in the order the backtracking matcher tries them
  (greedy first).
\<close>

datatype pat =
    Eps
  | Chr char
  | Cls "char \<Rightarrow> bool"
  | Cat pat pat
  | Opt pat
  | Plus "char \<Rightarrow> bool"
  | NotAhead pat

fun pmatch :: "pat \<Rightarrow> string \<Rightarrow> string list" where
  "pmatch Eps s = [s]"
| "pmatch (Chr a) s =
     (case s of [] \<Rightarrow> [] | c # cs \<Rightarrow> if to_lower c = to_lower a then [cs] else [])"
| "pmatch (Cls P) s = (case s of [] \<Rightarrow> [] | c # cs \<Rightarrow> if P c then [cs] else [])"
| "pmatch (Cat p q) s = concat (map (pmatch q) (pmatch p s))"
| "pmatch (Opt p) s = pmatch p s @ [s]"
| "pmatch (Plus P) s =
     map (\<lambda>k. drop k s) (rev [1 ..< Suc (length (takeWhile P s))])"
| "pmatch (NotAhead p) s = (if pmatch p s = [] then [s] else [])"

definition lit :: "string \<Rightarrow> pat" where
  "lit s = foldr (\<lambda>c p. Cat (Chr c) p) s Eps"

text \<open>\<^verbatim>\<open>p.match(s)\<close> and \<^verbatim>\<open>p.search(s)\<close>, read as truth values.\<close>

definition re_match :: "pat \<Rightarrow> string \<Rightarrow> bool" where
  "re_match p s = (pmatch p s \<noteq> [])"

fun re_search :: "pat \<Rightarrow> string \<Rightarrow> bool" where
  "re_search p [] = re_match p []"
| "re_search p (c # cs) = (re_match p (c # cs) \<or> re_search p cs)"

text \<open>
  \<^verbatim>\<open>p.findall(s)\<close> for a pattern whose single group is the whole match: the matches
  found left to right, each search resuming where the last match ended.
\<close>

fun findall_aux :: "pat \<Rightarrow> nat \<Rightarrow> string \<Rightarrow> string list" where
  "findall_aux p skip [] = (if skip = 0 \<and> re_match p [] then [[]] else [])"
| "findall_aux p (Suc k) (c # cs) = findall_aux p k cs"
| "findall_aux p 0 (c # cs) =
     (case pmatch p (c # cs) of
        [] \<Rightarrow> findall_aux p 0 cs
      | r # _ \<Rightarrow>
          (let n = length (c # cs) - length r
           in take n (c # cs) # findall_aux p (n - 1) cs))"

definition findall :: "pat \<Rightarrow> string \<Rightarrow> string list" where
  "findall p s = findall_aux p 0 s"

definition word_char :: "char \<Rightarrow> bool" where
  "word_char c = (is_alnum c \<or> c = CHR ''_'' \<or> c = CHR ''-'')"

definition url_char :: "char \<Rightarrow> bool" where
  "url_char c = (\<not> is_space c \<and> c \<noteq> CHR ''<'' \<and> c \<noteq> CHR ''>'' \<and> c \<noteq> CHR 0x22)"

definition https_prefix :: pat where
  "https_prefix = Cat (lit ''http'') (Cat (Opt (Chr CHR ''s'')) (lit ''://''))"

definition URL_REGEX :: pat where
  "URL_REGEX = Cat https_prefix (Plus url_char)"

definition TG_PLUS_INVITE_REGEX :: pat where
  "TG_PLUS_INVITE_REGEX = Cat https_prefix (Cat (lit ''t.me/+'') (Plus word_char))"

definition TG_WITHOUT_PLUS_REGEX :: pat where
  "TG_WITHOUT_PLUS_REGEX =
     Cat https_prefix (Cat (lit ''t.me/'') (Cat (Plus word_char) (NotAhead (Chr CHR ''/''))))"

definition TG_REJECTED_PATTERNS :: "pat list" where
  "TG_REJECTED_PATTERNS = [lit ''/bot/'', lit ''t.me/bot'', lit ''/invite/'', lit ''t.me/invite'']"

definition WA_GROUP_REGEX :: pat where
  "WA_GROUP_REGEX = Cat https_prefix (Cat (lit ''chat.whatsapp.com/'') (Plus is_alnum))"

definition WA_PHONE_REGEX :: pat where
  "WA_PHONE_REGEX = Cat https_prefix (Cat (lit ''wa.me/'') (Plus is_digit))"

section \<open>link\_utils.py: the classification policy\<close>

definition is_valid_link_for_extraction :: "string \<Rightarrow> bool" where
  "is_valid_link_for_extraction link =
     (if link = [] then False
      else let link_lower = lower link in
        if list_ex (\<lambda>pattern. re_search pattern link_lower) TG_REJECTED_PATTERNS then False
        else if contains link_lower ''t.me'' \<or> contains link_lower ''telegram.me'' then True
        else if contains link_lower ''whatsapp.com'' \<or> contains link_lower ''wa.me'' then True
        else False)"

definition classify_telegram_link :: "string \<Rightarrow> string \<times> string" where
  "classify_telegram_link url =
     (let url_lower = lower url in
      if re_match TG_PLUS_INVITE_REGEX url then (''invite_with_plus'', ''group'')
      else if re_match TG_WITHOUT_PLUS_REGEX url then
        (''invite_without_plus'',
         if list_ex (\<lambda>pattern. contains url_lower pattern) [''c/'', ''channel/'']
         then ''channel'' else ''group'')
      else (''unknown'', ''unknown''))"

definition classify_whatsapp_link :: "string \<Rightarrow> string" where
  "classify_whatsapp_link url =
     (if re_match WA_GROUP_REGEX url then ''group''
      else if re_match WA_PHONE_REGEX url then ''private''
      else ''unknown'')"

definition is_valid_telegram_link :: "string \<Rightarrow> bool" where
  "is_valid_telegram_link link =
     (let link_lower = strip (lower link) in
      if list_ex (\<lambda>pattern. re_search pattern link_lower) TG_REJECTED_PATTERNS then False
      else if \<not> contains link_lower ''t.me/'' then False
      else let parts = split link_lower ''t.me/'' in
        if length parts < 2 then False
        else let path_part = hd (split (parts ! 1) ''?'');
                 path_segments = split path_part ''/'';
                 first_segment = hd path_segments in
          if length path_segments > 1 then False
          else if startswith first_segment ''+'' \<and> length first_segment \<le> 12
                  \<and> isdigit (drop 1 first_segment)
                  \<and> 7 \<le> length (drop 1 first_segment) \<and> length (drop 1 first_segment) \<le> 12
          then False
          else if startswith first_segment ''+'' then
            (if \<not> isalnum (replace (replace (drop 1 first_segment) ''_'' []) ''-'' [])
             then False else True)
          else
            (if \<not> isalnum (replace (replace first_segment ''_'' []) ''-'' [])
             then False else True))"

definition filter_and_classify_link :: "string \<Rightarrow> (string \<times> string) option" where
  "filter_and_classify_link url =
     (if \<not> is_valid_link_for_extraction url then None
      else if contains (lower url) ''t.me'' \<or> contains (lower url) ''telegram.me'' then
        (if \<not> is_valid_telegram_link url then None
         else let (telegram_type, chat_type) = classify_telegram_link url;
                  platform_type = ''telegram_'' @ telegram_type
              in Some (platform_type, chat_type))
      else if contains (lower url) ''whatsapp.com'' \<or> contains (lower url) ''wa.me'' then
        (let chat_type = classify_whatsapp_link url in
         if chat_type = ''private'' then None
         else if chat_type = ''group'' then Some (''whatsapp'', ''group'')
         else None)
      else None)"

section \<open>Python values the code formats or returns\<close>

text \<open>\<^verbatim>\<open>str(i)\<close> and \<^verbatim>\<open>f"{i}"\<close> of an integer: the decimal digits, after a minus
  sign when it is negative.\<close>

function str_digits :: "int \<Rightarrow> string" where
  "str_digits n =
     (if n < 10 then [char_of (48 + n)]
      else str_digits (n div 10) @ [char_of (48 + n mod 10)])"
  by pat_completeness auto
termination
  by (relation "measure nat") auto

definition str_int :: "int \<Rightarrow> string" where
  "str_int i = (if i < 0 then CHR ''-'' # str_digits (- i) else str_digits i)"

text \<open>What a call hands back: \<^verbatim>\<open>None\<close> (also when the function ends without
  \<^verbatim>\<open>return\<close>) or a truth value.\<close>

datatype pyval = PyNone | PyBool bool

datatype exn =
  OperationalError | ProgrammingError | IntegrityError | AttributeError | TypeError

text \<open>
  A \<^verbatim>\<open>datetime\<close> is naive or timezone-aware; the integer is its reading in seconds.
  \<^verbatim>\<open>datetime.now()\<close> gives a naive one, the protocol library builds every
  \<^verbatim>\<open>message.date\<close> timezone-aware (UTC), and Python refuses to order a naive and an
  aware one.
\<close>

datatype pydatetime = Naive int | Aware int

text \<open>
  A \<^verbatim>\<open>dict\<close> keeps its keys in insertion order, and \<^verbatim>\<open>sorted\<close> is stable, so the
  order decides ties: the dictionary is an association list with distinct keys.
  \<open>dict_set\<close> is \<^verbatim>\<open>d[k] = v\<close> (an existing key keeps its place), \<open>dict_del\<close> is
  \<^verbatim>\<open>del d[k]\<close> for a key that is present.
\<close>

fun dict_set :: "('k \<times> 'v) list \<Rightarrow> 'k \<Rightarrow> 'v \<Rightarrow> ('k \<times> 'v) list" where
  "dict_set [] k v = [(k, v)]"
| "dict_set ((k', v') # d) k v =
     (if k' = k then (k, v) # d else (k', v') # dict_set d k v)"

definition dict_del :: "('k \<times> 'v) list \<Rightarrow> 'k \<Rightarrow> ('k \<times> 'v) list" where
  "dict_del d k = filter (\<lambda>kv. fst kv \<noteq> k) d"

section \<open>file\_extractors.py: the document dedup cache\<close>

text \<open>The float of \<^verbatim>\<open>datetime.now().timestamp()\<close> is an integer here: the code only
  compares time stamps.\<close>

record cache_entry =
  hash :: string
  timestamp :: int
  links_found :: nat

type_synonym cache = "(string \<times> cache_entry) list"

definition MAX_CACHE_SIZE :: nat where
  "MAX_CACHE_SIZE = 1000"

definition is_file_already_processed :: "cache \<Rightarrow> string \<Rightarrow> string \<Rightarrow> bool" where
  "is_file_already_processed processed file_identifier file_hash =
     (case map_of processed file_identifier of
        Some cached_file \<Rightarrow>
          if file_hash \<noteq> [] \<and> hash cached_file = file_hash then True else True
      | None \<Rightarrow> False)"

text \<open>The sort key \<^verbatim>\<open>_processed_files[k].get('timestamp', 0)\<close>.\<close>

definition entry_timestamp :: "cache \<Rightarrow> string \<Rightarrow> int" where
  "entry_timestamp processed k =
     (case map_of processed k of Some e \<Rightarrow> timestamp e | None \<Rightarrow> 0)"

definition oldest_keys :: "cache \<Rightarrow> string list" where
  "oldest_keys processed =
     take 100 (sort_key (entry_timestamp processed) (map fst processed))"

text \<open>\<open>now\<close> is the reading of \<^verbatim>\<open>datetime.now().timestamp()\<close> of this call.\<close>

definition add_to_processed_cache ::
  "int \<Rightarrow> string \<Rightarrow> string \<Rightarrow> nat \<Rightarrow> cache \<Rightarrow> cache" where
  "add_to_processed_cache now file_identifier file_hash found processed =
     (let cleaned =
        (if length processed \<ge> MAX_CACHE_SIZE
         then foldl dict_del processed (oldest_keys processed)
         else processed)
      in dict_set cleaned file_identifier
           \<lparr>hash = file_hash, timestamp = now, links_found = found\<rparr>)"

definition clear_file_cache :: "cache \<Rightarrow> cache" where
  "clear_file_cache processed = []"

section \<open>Messages and the protocol client\<close>

record tg_file =
  file_name :: "string option"
  file_id :: int
  file_size :: int
  mime_type :: "string option"

text \<open>\<^verbatim>\<open>message.replies\<close>: the \<^verbatim>\<open>comments\<close> flag and the \<^verbatim>\<open>replies\<close> count.\<close>

record message_replies =
  comments :: bool
  replies :: int

text \<open>
  A message as the pipeline reads it. Telethon's \<^verbatim>\<open>text\<close> is a rendering of the raw
  \<^verbatim>\<open>message\<close> string, so one field stands for both, empty when there is none.
  \<open>reply_markup\<close> lists the rows of buttons, each button by its \<^verbatim>\<open>url\<close> if it has one.
\<close>

record message =
  msg_id :: int
  msg_chat_id :: int
  msg_text :: string
  msg_date :: pydatetime
  reply_markup :: "string option list list option"
  msg_replies :: "message_replies option"
  msg_file :: "tg_file option"

text \<open>
  What downloading an attachment gives: whether \<^verbatim>\<open>download_media\<close> left a file, the
  MD5 digest \<^verbatim>\<open>get_file_hash\<close> computes (empty when hashing fails), and the texts the
  format's reader yields (the content of a text file, the pages of a PDF, the
  paragraphs, cells and comments of a DOCX, the output of antiword; none when the
  reader fails).
\<close>

record fetched =
  download_ok :: bool
  md5 :: string
  texts :: "string list"

text \<open>
  The protocol client: \<open>iter_messages peer reply_to\<close> is the sequence of replies that
  \<^verbatim>\<open>client.iter_messages(peer, reply_to=...)\<close> yields when no limit is given, and
  \<open>download_media\<close> answers by message id.
\<close>

record client =
  iter_messages :: "int \<Rightarrow> int \<Rightarrow> message list"
  download_media :: "int \<Rightarrow> fetched"

section \<open>database.py: the link store\<close>

text \<open>
  A row of the table \<^verbatim>\<open>links\<close>. The column \<^verbatim>\<open>message_date\<close> holds the ISO rendering of
  the date; the model keeps the date itself. \<^verbatim>\<open>collected_date\<close> (the time of the
  insert) plays no part in what follows and is left out.
\<close>

record link_row =
  col_id :: nat
  col_url :: string
  col_platform :: string
  col_source_account :: string
  col_chat_type :: string
  col_chat_id :: string
  col_message_date :: "pydatetime option"
  col_source_type :: "string option"

text \<open>The committed content of the database file: the two tables \<^verbatim>\<open>save_link\<close> writes
  and the \<^verbatim>\<open>AUTOINCREMENT\<close> counter of \<^verbatim>\<open>links.id\<close>.\<close>

record database =
  tbl_links :: "link_row list"
  tbl_telegram_types :: "(nat \<times> string) list"
  link_seq :: nat

text \<open>What the environment does to a call: the database answers, or
  \<^verbatim>\<open>sqlite3.connect\<close> fails, or the connection opens on a file without the tables.\<close>

datatype db_status = Up | Unreachable | NoSchema

section \<open>The state the modules share\<close>

text \<open>
  \<open>file_cache\<close> is \<^verbatim>\<open>file_extractors._processed_files\<close> (the bounded dictionary),
  \<open>processed_files\<close> is \<^verbatim>\<open>collector._processed_files\<close> (a plain set of
  name-and-size keys), \<open>collecting\<close>, \<open>stop_event\<close> and \<open>clients\<close> are the collector's
  other globals. \<open>clock\<close> is what \<^verbatim>\<open>datetime.now()\<close> reads, in seconds. Three counters
  make effects visible: connections opened by \<^verbatim>\<open>get_connection\<close>, calls of
  \<^verbatim>\<open>client.download_media\<close>, and replies yielded by the comment extractor's iteration.
  \<open>logged\<close> collects the exceptions handed to \<^verbatim>\<open>logger.error\<close>.
\<close>

record world =
  db :: database
  status :: db_status
  connections_opened :: nat
  logged :: "exn list"
  file_cache :: cache
  downloads :: nat
  processed_files :: "string set"
  collecting :: bool
  stop_event :: bool
  clients :: "string list"
  clock :: int
  replies_examined :: nat

section \<open>link\_utils.py: the text and button extractors\<close>

text \<open>The extractors collect into a \<^verbatim>\<open>set\<close> and return \<^verbatim>\<open>list(links)\<close>, whose order
  Python does not fix; the model lists each link once, in the order of the text.\<close>

definition scan_text :: "string \<Rightarrow> string list" where
  "scan_text text =
     map strip (filter is_valid_link_for_extraction (findall URL_REGEX text))"

definition extract_links_from_message :: "message \<Rightarrow> string list" where
  "extract_links_from_message m =
     (let text = msg_text m in
      if text \<noteq> [] then remdups (scan_text text) else [])"

definition extract_buttons_links :: "message \<Rightarrow> string list" where
  "extract_buttons_links m =
     (case reply_markup m of
        None \<Rightarrow> []
      | Some rows \<Rightarrow>
          remdups (map strip (filter is_valid_link_for_extraction
            (concat (map (\<lambda>row. concat (map (\<lambda>button.
               case button of None \<Rightarrow> [] | Some link \<Rightarrow> if link = [] then [] else [link]) row))
             rows)))))"

section \<open>file\_extractors.py: the file extractor\<close>

text \<open>\<^verbatim>\<open>s.rfind(c)\<close>: the index of the last \<open>c\<close>, or \<open>-1\<close>.\<close>

fun rfind_aux :: "string \<Rightarrow> char \<Rightarrow> int \<Rightarrow> int \<Rightarrow> int" where
  "rfind_aux [] c i found = found"
| "rfind_aux (x # xs) c i found = rfind_aux xs c (i + 1) (if x = c then i else found)"

definition rfind :: "string \<Rightarrow> char \<Rightarrow> int" where
  "rfind s c = rfind_aux s c 0 (- 1)"

text \<open>\<^verbatim>\<open>os.path.splitext\<close> (posixpath): the extension starts at the last dot of the last
  path component, unless only dots come before it there.\<close>

definition splitext :: "string \<Rightarrow> string \<times> string" where
  "splitext p =
     (let sepIndex = rfind p CHR ''/''; dotIndex = rfind p CHR ''.'' in
      if dotIndex > sepIndex
         \<and> list_ex (\<lambda>i. p ! i \<noteq> CHR ''.'') [nat (sepIndex + 1) ..< nat dotIndex]
      then (take (nat dotIndex) p, drop (nat dotIndex) p)
      else (p, []))"

definition SUPPORTED_EXTENSIONS :: "(string \<times> string) list" where
  "SUPPORTED_EXTENSIONS =
     [(''.pdf'', ''application/pdf''),
      (''.docx'', ''application/vnd.openxmlformats-officedocument.wordprocessingml.document''),
      (''.doc'', ''application/msword''),
      (''.txt'', ''text/plain''),
      (''.rtf'', ''application/rtf''),
      (''.odt'', ''application/vnd.oasis.opendocument.text'')]"

definition is_file_supported :: "string \<Rightarrow> string \<Rightarrow> bool" where
  "is_file_supported filename mime =
     (if filename = [] then False
      else let ext = snd (splitext (lower filename)) in
        if map_of SUPPORTED_EXTENSIONS ext \<noteq> None then True
        else if mime \<noteq> []
                \<and> list_ex (\<lambda>supported_mime. contains supported_mime mime)
                     (map snd SUPPORTED_EXTENSIONS)
        then True
        else False)"

definition get_file_identifier :: "message \<Rightarrow> string \<times> string" where
  "get_file_identifier m =
     (case msg_file m of
        None \<Rightarrow> ([], [])
      | Some f \<Rightarrow>
          let identifier = str_int (file_id f) @ ''_'' @ str_int (file_size f) in
          (case file_name f of
             None \<Rightarrow> (identifier, [])
           | Some n \<Rightarrow>
               if n = [] then (identifier, [])
               else (lower n @ ''_'' @ identifier, lower n)))"

definition MAX_FILE_SIZE :: int where
  "MAX_FILE_SIZE = 50 * 1024 * 1024"

text \<open>\<open>download_file_with_progress\<close> asks the client only for a file within the size
  limit; the world counts the request.\<close>

definition download_file_with_progress :: "client \<Rightarrow> message \<Rightarrow> tg_file \<Rightarrow> world \<Rightarrow> bool \<times> world" where
  "download_file_with_progress cl m f w =
     (if file_size f > MAX_FILE_SIZE then (False, w)
      else (download_ok (download_media cl (msg_id m)), w\<lparr>downloads := downloads w + 1\<rparr>))"

text \<open>The four readers scan each text they get with the URL pattern and keep the
  links that pass the pre-filter.\<close>

definition extract_from_texts :: "string list \<Rightarrow> string list" where
  "extract_from_texts ts = remdups (concat (map scan_text ts))"

definition extract_from_pdf :: "fetched \<Rightarrow> string list" where
  "extract_from_pdf d = extract_from_texts (texts d)"

definition extract_from_docx :: "fetched \<Rightarrow> string list" where
  "extract_from_docx d = extract_from_texts (texts d)"

definition extract_from_doc :: "fetched \<Rightarrow> string list" where
  "extract_from_doc d = extract_from_texts (texts d)"

definition extract_from_txt :: "fetched \<Rightarrow> string list" where
  "extract_from_txt d = extract_from_texts (texts d)"

text \<open>\<^verbatim>\<open>message.file.name or "file"\<close> and \<^verbatim>\<open>message.file.mime_type or ""\<close>.\<close>

definition filename_of :: "tg_file \<Rightarrow> string" where
  "filename_of f = (case file_name f of None \<Rightarrow> ''file'' | Some n \<Rightarrow> if n = [] then ''file'' else n)"

definition mime_of :: "tg_file \<Rightarrow> string" where
  "mime_of f = (case mime_type f of None \<Rightarrow> [] | Some t \<Rightarrow> t)"

text \<open>\<^verbatim>\<open>extract_links_from_file\<close> returns the links and leaves the cache and the count of
  downloads in the world.\<close>

definition extract_links_from_file :: "client \<Rightarrow> message \<Rightarrow> world \<Rightarrow> string list \<times> world" where
  "extract_links_from_file cl m w =
     (case msg_file m of
        None \<Rightarrow> ([], w)
      | Some f \<Rightarrow>
          let filename = filename_of f; mime = mime_of f in
          if \<not> is_file_supported filename mime then ([], w)
          else
            let file_identifier = fst (get_file_identifier m) in
            if file_identifier = [] then ([], w)
            else if is_file_already_processed (file_cache w) file_identifier [] then ([], w)
            else
              let (download_success, w1) = download_file_with_progress cl m f w in
              if \<not> download_success then ([], w1)
              else
                let d = download_media cl (msg_id m);
                    file_hash = md5 d
                in
                if file_hash \<noteq> []
                   \<and> is_file_already_processed (file_cache w1) file_identifier file_hash
                then ([], w1)
                else
                  let ext = snd (splitext (lower filename));
                      found =
                        (if ext = ''.pdf'' \<or> mime = ''application/pdf'' then extract_from_pdf d
                         else if ext = ''.docx'' \<or> mime =
                           ''application/vnd.openxmlformats-officedocument.wordprocessingml.document''
                           then extract_from_docx d
                         else if ext = ''.doc'' \<or> mime = ''application/msword''
                           then extract_from_doc d
                         else if ext = ''.txt'' \<or> mime = ''text/plain'' then extract_from_txt d
                         else [])
                  in (found,
                      w1\<lparr>file_cache :=
                        add_to_processed_cache (clock w1) file_identifier file_hash
                          (length found) (file_cache w1)\<rparr>))"

section \<open>database.py: save\_link\<close>

text \<open>
  The \<^verbatim>\<open>try\<close> block of \<^verbatim>\<open>save_link\<close>, for a non-empty \<open>url\<close>: an exception is the
  value \<open>Inl\<close>. Opening the connection can fail; so can the first query when the
  tables are missing. \<^verbatim>\<open>INSERT OR IGNORE\<close> adds the row under the next id (with a
  \<^verbatim>\<open>NULL\<close> platform it adds nothing, and \<^verbatim>\<open>platform.startswith\<close> then raises before
  anything is committed). After \<^verbatim>\<open>commit\<close> and \<^verbatim>\<open>close\<close> the block runs
  \<^verbatim>\<open>SELECT COUNT(*)\<close> on the cursor of the closed connection, which raises
  \<^verbatim>\<open>ProgrammingError\<close>: that is how every inserting call leaves the block.
\<close>

definition save_link_try ::
  "string \<Rightarrow> string option \<Rightarrow> string \<Rightarrow> string \<Rightarrow> string \<Rightarrow> pydatetime option \<Rightarrow> string option
   \<Rightarrow> world \<Rightarrow> (exn + pyval) \<times> world" where
  "save_link_try url platform source_account chat_type chat_id message_date source_type w =
     (case status w of
        Unreachable \<Rightarrow> (Inl OperationalError, w)
      | NoSchema \<Rightarrow> (Inl OperationalError, w\<lparr>connections_opened := connections_opened w + 1\<rparr>)
      | Up \<Rightarrow>
          let w1 = w\<lparr>connections_opened := connections_opened w + 1\<rparr> in
          if list_ex (\<lambda>r. col_url r = url) (tbl_links (db w)) then (Inr PyNone, w1)
          else
            (case platform of
               None \<Rightarrow> (Inl AttributeError, w1)
             | Some p \<Rightarrow>
                 let link_id = link_seq (db w) + 1;
                     row = \<lparr>col_id = link_id, col_url = url, col_platform = p,
                            col_source_account = source_account, col_chat_type = chat_type,
                            col_chat_id = chat_id, col_message_date = message_date,
                            col_source_type = source_type\<rparr>;
                     types =
                       (if startswith p ''telegram_''
                        then tbl_telegram_types (db w) @ [(link_id, replace p ''telegram_'' [])]
                        else tbl_telegram_types (db w))
                 in (Inl ProgrammingError,
                     w1\<lparr>db := \<lparr>tbl_links = tbl_links (db w) @ [row],
                                tbl_telegram_types = types, link_seq = link_id\<rparr>\<rparr>)))"

text \<open>
  \<^verbatim>\<open>save_link\<close>: the guard on \<open>url\<close>, then the block under its handlers.
  \<^verbatim>\<open>IntegrityError\<close> is passed over, any other exception is logged, and the
  \<^verbatim>\<open>finally\<close> clause closes the connection under a bare \<^verbatim>\<open>except\<close>. No path has a
  \<^verbatim>\<open>return\<close> with a value.
\<close>

definition save_link ::
  "string option \<Rightarrow> string option \<Rightarrow> string \<Rightarrow> string \<Rightarrow> string \<Rightarrow> pydatetime option \<Rightarrow> string option
   \<Rightarrow> world \<Rightarrow> (exn + pyval) \<times> world" where
  "save_link url platform source_account chat_type chat_id message_date source_type w =
     (case url of
        None \<Rightarrow> (Inr PyNone, w)
      | Some u \<Rightarrow>
          if u = [] then (Inr PyNone, w)
          else
            let (r, w') = save_link_try u platform source_account chat_type chat_id
                            message_date source_type w
            in (case r of
                  Inr v \<Rightarrow> (Inr PyNone, w')
                | Inl e \<Rightarrow>
                    if e = IntegrityError then (Inr PyNone, w')
                    else (Inr PyNone, w'\<lparr>logged := logged w' @ [e]\<rparr>)))"

section \<open>collector.py\<close>

definition is_collecting :: "world \<Rightarrow> bool" where
  "is_collecting w = collecting w"

definition stop_collection :: "world \<Rightarrow> world" where
  "stop_collection w = w\<lparr>collecting := False, stop_event := True\<rparr>"

text \<open>
  \<^verbatim>\<open>start_collection\<close> up to the point where it builds the workers' tasks;
  \<open>sessions\<close> is what \<^verbatim>\<open>get_all_sessions()\<close> returns, each session by its name.
  \<^verbatim>\<open>_processed_files.clear()\<close> there is the collector's own set.
\<close>

definition start_collection :: "string list \<Rightarrow> world \<Rightarrow> world" where
  "start_collection sessions w =
     (if collecting w then w
      else if sessions = [] then w
      else w\<lparr>collecting := True, stop_event := False, clients := [], processed_files := {}\<rparr>)"

text \<open>
  \<^verbatim>\<open>is_within_last_60_days\<close> compares the message's date with
  \<^verbatim>\<open>datetime.now() - timedelta(days=60)\<close>, which is naive (\<open>now\<close> is the clock's reading,
  sixty days are counted in seconds). Against a timezone-aware date the comparison
  raises \<^verbatim>\<open>TypeError\<close>.
\<close>

definition is_within_last_60_days :: "int \<Rightarrow> pydatetime \<Rightarrow> exn + bool" where
  "is_within_last_60_days now message_date =
     (let cutoff_date = now - 60 * 86400 in
      case message_date of
        Naive t \<Rightarrow> Inr (t > cutoff_date)
      | Aware t \<Rightarrow> Inl TypeError)"

text \<open>The collector's own \<^verbatim>\<open>is_valid_telegram_link\<close>; the classifier calls the one of
  link\_utils.\<close>

definition collector_is_valid_telegram_link :: "string \<Rightarrow> bool" where
  "collector_is_valid_telegram_link link0 =
     (let link = strip (lower link0) in
      if contains link ''t.me/'' then
        (if contains link ''/bot/'' \<or> contains link ''t.me/bot/'' \<or> contains link ''/invite/''
         then False
         else let parts = split link ''t.me/'' in
           if length parts > 1 then
             (let path = hd (split (hd (split (parts ! 1) ''?'')) ''/'') in
              if startswith path ''+'' \<and> length path > 1 then True
              else if isalnum (replace (replace path ''_'' []) ''-'' []) then True
              else False)
           else False)
      else False)"

text \<open>
  \<^verbatim>\<open>extract_comment_links\<close>, the extractor \<^verbatim>\<open>process_message\<close> calls: it iterates
  \<^verbatim>\<open>client.iter_messages(message.chat_id, reply_to=message.id)\<close> with no limit. An
  exception ends the iteration and keeps the links gathered so far, so the client's
  sequence is the replies yielded until the iteration ends.
\<close>

definition extract_comment_links :: "client \<Rightarrow> message \<Rightarrow> string \<Rightarrow> world \<Rightarrow> string list \<times> world" where
  "extract_comment_links cl m account_name w =
     (case msg_replies m of
        None \<Rightarrow> ([], w)
      | Some r \<Rightarrow>
          if comments r \<and> replies r > 0 then
            (let yielded = iter_messages cl (msg_chat_id m) (msg_id m) in
             (concat (map extract_links_from_message yielded),
              w\<lparr>replies_examined := replies_examined w + length yielded\<rparr>))
          else ([], w))"

text \<open>The body of the loop of \<^verbatim>\<open>process_links_list\<close> (and of the same loop in
  \<^verbatim>\<open>process_files\<close>) for one link. Neither loop has a handler of its own, so an
  exception of the date test leaves the loop: the result is the exception, if any,
  and the world at that moment.\<close>

definition process_link ::
  "string \<Rightarrow> message \<Rightarrow> string \<Rightarrow> pydatetime \<Rightarrow> string \<Rightarrow> world \<Rightarrow> exn option \<times> world" where
  "process_link link m account_name message_date source_type w =
     (case filter_and_classify_link link of
        None \<Rightarrow> (None, w)
      | Some (platform, link_chat_type) \<Rightarrow>
          if platform = ''whatsapp'' then
            (case is_within_last_60_days (clock w) message_date of
               Inl e \<Rightarrow> (Some e, w)
             | Inr within \<Rightarrow>
                 if \<not> within then (None, w)
                 else (None, snd (save_link (Some link) (Some platform) account_name
                         link_chat_type (str_int (msg_chat_id m)) (Some message_date)
                         (Some source_type) w)))
          else if platform = ''telegram'' then
            (if collector_is_valid_telegram_link link then
               (let telegram_type =
                      (if startswith link ''t.me/+'' then ''invite_with_plus''
                       else ''invite_without_plus'')
                in (None, snd (save_link (Some link) (Some (''telegram_'' @ telegram_type))
                          account_name link_chat_type (str_int (msg_chat_id m))
                          (Some message_date) (Some source_type) w)))
             else (None, w))
          else (None, w))"

fun process_links_list ::
  "string list \<Rightarrow> message \<Rightarrow> string \<Rightarrow> string \<Rightarrow> world \<Rightarrow> exn option \<times> world" where
  "process_links_list [] m account_name source_type w = (None, w)"
| "process_links_list (link # rest) m account_name source_type w =
     (case process_link link m account_name (msg_date m) source_type w of
        (r, w') \<Rightarrow>
          (case r of
             Some e \<Rightarrow> (Some e, w')
           | None \<Rightarrow> process_links_list rest m account_name source_type w'))"

fun process_file_links ::
  "string list \<Rightarrow> message \<Rightarrow> string \<Rightarrow> pydatetime \<Rightarrow> world \<Rightarrow> exn option \<times> world" where
  "process_file_links [] m account_name message_date w = (None, w)"
| "process_file_links (link # rest) m account_name message_date w =
     (case process_link link m account_name message_date ''file'' w of
        (r, w') \<Rightarrow>
          (case r of
             Some e \<Rightarrow> (Some e, w')
           | None \<Rightarrow> process_file_links rest m account_name message_date w'))"

text \<open>\<^verbatim>\<open>process_files\<close> runs under \<^verbatim>\<open>try\<close> with \<^verbatim>\<open>except Exception\<close>: an exception of
  its loop is logged there and goes no further.\<close>

definition process_files :: "client \<Rightarrow> message \<Rightarrow> string \<Rightarrow> pydatetime \<Rightarrow> world \<Rightarrow> world" where
  "process_files cl m account_name message_date w =
     (case msg_file m of
        None \<Rightarrow> w
      | Some f \<Rightarrow>
          let name = (case file_name f of None \<Rightarrow> ''None'' | Some n \<Rightarrow> n);
              key = name @ ''_'' @ str_int (file_size f)
          in
          if key \<in> processed_files w then w
          else
            let w1 = w\<lparr>processed_files := insert key (processed_files w)\<rparr>;
                (file_links, w2) = extract_links_from_file cl m w1;
                (r, w3) = process_file_links file_links m account_name message_date w2
            in (case r of
                  None \<Rightarrow> w3
                | Some e \<Rightarrow> w3\<lparr>logged := logged w3 @ [e]\<rparr>))"

text \<open>\<^verbatim>\<open>process_message\<close> has no handler: an exception of one of its three calls of
  \<^verbatim>\<open>process_links_list\<close> ends it there and goes to its caller.\<close>

definition process_message :: "message \<Rightarrow> string \<Rightarrow> client \<Rightarrow> world \<Rightarrow> exn option \<times> world" where
  "process_message m account_name cl w =
     (if msg_text m = [] then (None, w)
      else
        let text_links = extract_links_from_message m;
            (r1, w1) = process_links_list text_links m account_name ''text'' w
        in (case r1 of
              Some e \<Rightarrow> (Some e, w1)
            | None \<Rightarrow>
                let button_links = extract_buttons_links m;
                    (r2, w2) = process_links_list button_links m account_name ''button'' w1
                in (case r2 of
                      Some e \<Rightarrow> (Some e, w2)
                    | None \<Rightarrow>
                        let (comment_links, w3) = extract_comment_links cl m account_name w2;
                            (r4, w4) = process_links_list comment_links m account_name
                                         ''comment'' w3
                        in (case r4 of
                              Some e \<Rightarrow> (Some e, w4)
                            | None \<Rightarrow>
                                (None, process_files cl m account_name (msg_date m) w4)))))"

text \<open>
  \<^verbatim>\<open>collect_old_messages\<close>: the messages of each dialog, oldest first. The loop over
  the messages of a dialog ends when they are drained, or returns from the whole
  function once \<^verbatim>\<open>_collecting\<close> is false, or is left by an exception of
  \<^verbatim>\<open>process_message\<close>; the handler around it logs that exception and the outer loop
  goes on with the next dialog.
\<close>

datatype loop_end = Drained | Returned | Raised exn

fun collect_dialog :: "message list \<Rightarrow> string \<Rightarrow> client \<Rightarrow> world \<Rightarrow> loop_end \<times> world" where
  "collect_dialog [] account_name cl w = (Drained, w)"
| "collect_dialog (m # ms) account_name cl w =
     (if \<not> collecting w then (Returned, w)
      else (case process_message m account_name cl w of
              (r, w') \<Rightarrow>
                (case r of
                   Some e \<Rightarrow> (Raised e, w')
                 | None \<Rightarrow> collect_dialog ms account_name cl w')))"

fun collect_old_messages :: "message list list \<Rightarrow> string \<Rightarrow> client \<Rightarrow> world \<Rightarrow> world" where
  "collect_old_messages [] account_name cl w = w"
| "collect_old_messages (dialog # dialogs) account_name cl w =
     (case collect_dialog dialog account_name cl w of
        (r, w') \<Rightarrow>
          (case r of
             Returned \<Rightarrow> w'
           | Drained \<Rightarrow> collect_old_messages dialogs account_name cl w'
           | Raised e \<Rightarrow>
               collect_old_messages dialogs account_name cl (w'\<lparr>logged := logged w' @ [e]\<rparr>)))"

section \<open>Concrete inputs\<close>

text \<open>An empty database that answers, empty caches, collection running, the clock at
  day 1000.\<close>

definition day :: int where
  "day = 86400"

definition world0 :: world where
  "world0 =
     \<lparr>db = \<lparr>tbl_links = [], tbl_telegram_types = [], link_seq = 0\<rparr>,
      status = Up, connections_opened = 0, logged = [],
      file_cache = [], downloads = 0, processed_files = {},
      collecting = True, stop_event = False, clients = [],
      clock = 1000 * day, replies_examined = 0\<rparr>"

text \<open>The conversation of the end-to-end scenario. The second and third message carry
  a short text without links, so that the pipeline does not skip them.\<close>

definition message1 :: message where
  "message1 =
     \<lparr>msg_id = 1, msg_chat_id = 77, 
      msg_text = ''join https://t.me/+AAA and see https://example.com'',
      msg_date = Aware (980 * day), reply_markup = None, msg_replies = None, msg_file = None\<rparr>"

definition message2 :: message where
  "message2 =
     \<lparr>msg_id = 2, msg_chat_id = 77, msg_text = ''our group'',
      msg_date = Aware (990 * day),
      reply_markup = Some [[Some ''https://chat.whatsapp.com/BBB'']],
      msg_replies = None, msg_file = None\<rparr>"

definition message3 :: message where
  "message3 =
     \<lparr>msg_id = 3, msg_chat_id = 77, msg_text = ''the list'',
      msg_date = Aware (995 * day), reply_markup = None, msg_replies = None,
      msg_file = Some \<lparr>file_name = Some ''links.txt'', file_id = 9001, file_size = 24,
                        mime_type = Some ''text/plain''\<rparr>\<rparr>"

definition scenario_client :: client where
  "scenario_client =
     \<lparr>iter_messages = (\<lambda>peer reply_to. []),
      download_media = (\<lambda>i. \<lparr>download_ok = True, md5 = ''0f'',
                               texts = [''https://t.me/channelname'']\<rparr>)\<rparr>"

text \<open>The same message with a naive date of the same reading, as a test double would
  build it.\<close>

definition with_naive_date :: "message \<Rightarrow> message" where
  "with_naive_date m =
     m\<lparr>msg_date := Naive (case msg_date m of Naive t \<Rightarrow> t | Aware t \<Rightarrow> t)\<rparr>"

text \<open>A post with 101 comments, each a short text.\<close>

definition comment :: message where
  "comment =
     \<lparr>msg_id = 500, msg_chat_id = 78, msg_text = ''nice'', msg_date = Aware (999 * day),
      reply_markup = None, msg_replies = None, msg_file = None\<rparr>"

definition post :: message where
  "post =
     \<lparr>msg_id = 10, msg_chat_id = 77, msg_text = ''news'', msg_date = Aware (999 * day),
      reply_markup = None, msg_replies = Some \<lparr>comments = True, replies = 101\<rparr>,
      msg_file = None\<rparr>"

definition busy_client :: client where
  "busy_client =
     \<lparr>iter_messages = (\<lambda>peer reply_to. if peer = 77 \<and> reply_to = 10 then replicate 101 comment else []),
      download_media = (\<lambda>i. \<lparr>download_ok = False, md5 = [], texts = []\<rparr>)\<rparr>"

text \<open>An archive, which is no supported type, and an empty text file.\<close>

definition archive_zip :: tg_file where
  "archive_zip = \<lparr>file_name = Some ''backup.zip'', file_id = 9002, file_size = 2048,
                  mime_type = None\<rparr>"

definition archive_message :: message where
  "archive_message =
     \<lparr>msg_id = 4, msg_chat_id = 77, msg_text = ''backup'', msg_date = Aware (999 * day),
      reply_markup = None, msg_replies = None, msg_file = Some archive_zip\<rparr>"

definition empty_txt :: tg_file where
  "empty_txt = \<lparr>file_name = Some ''notes.txt'', file_id = 9003, file_size = 0,
                mime_type = Some ''text/plain''\<rparr>"

definition empty_txt_message :: message where
  "empty_txt_message =
     \<lparr>msg_id = 5, msg_chat_id = 77, msg_text = ''notes'', msg_date = Aware (999 * day),
      reply_markup = None, msg_replies = None, msg_file = Some empty_txt\<rparr>"

definition empty_txt_client :: client where
  "empty_txt_client =
     \<lparr>iter_messages = (\<lambda>peer reply_to. []),
      download_media = (\<lambda>i. \<lparr>download_ok = True, md5 = ''d4'', texts = [[]]\<rparr>)\<rparr>"

text \<open>A world that is not collecting and whose document cache holds one entry.\<close>

definition idle_world :: world where
  "idle_world =
     world0\<lparr>collecting := False, stop_event := True,
            file_cache := [(''links.txt_9001_24'', \<lparr>hash = ''0f'', timestamp = 990 * day,
                                                   links_found = 1\<rparr>)],
            processed_files := {''links.txt_24''}\<rparr>"

text \<open>A cache at capacity: a thousand entries, the \<open>i\<close>-th keyed by \<open>i\<close> letters and
  last seen at time \<open>i\<close>.\<close>

definition full_cache :: cache where
  "full_cache =
     map (\<lambda>i. (replicate i CHR ''f'', \<lparr>hash = [], timestamp = int i, links_found = 0\<rparr>))
       [0 ..< 1000]"

text \<open>A sequence of \<^verbatim>\<open>add_to_processed_cache\<close> calls, each with its clock reading,
  identifier, hash and count; and a sequence of \<^verbatim>\<open>save_link\<close> calls, each with the
  state of the environment it meets and its arguments.\<close>

fun record_all :: "(int \<times> string \<times> string \<times> nat) list \<Rightarrow> cache \<Rightarrow> cache" where
  "record_all [] processed = processed"
| "record_all ((now, file_identifier, file_hash, found) # ops) processed =
     record_all ops (add_to_processed_cache now file_identifier file_hash found processed)"

type_synonym save_call =
  "db_status \<times> string option \<times> string option \<times> string \<times> string \<times> string \<times> pydatetime option \<times> string option"

fun save_all :: "save_call list \<Rightarrow> world \<Rightarrow> world" where
  "save_all [] w = w"
| "save_all ((st, url, platform, source_account, chat_type, chat_id, message_date, source_type) # calls) w =
     save_all calls
       (snd (save_link url platform source_account chat_type chat_id message_date source_type
               (w\<lparr>status := st\<rparr>)))"


text \<open>A dictionary within its capacity.\<close>

definition cache_inv :: "cache \<Rightarrow> bool" where
  "cache_inv c = (distinct (map fst c) \<and> length c \<le> MAX_CACHE_SIZE)"

section \<open>The classification policy\<close>

text \<open>
  Claim C2. The classification table: \<^verbatim>\<open>https://t.me/+abcdef123\<close> is a group invite
  with plus, \<^verbatim>\<open>https://t.me/mychannel\<close> a group invite without plus,
  \<^verbatim>\<open>https://chat.whatsapp.com/ABC123\<close> a WhatsApp group; the phone-like
  \<^verbatim>\<open>https://t.me/+15551234567\<close>, the bot link, the link with two path segments and
  the \<^verbatim>\<open>wa.me\<close> contact link are rejected.
\<close>

theorem classification_table:
  "filter_and_classify_link ''https://t.me/+abcdef123''
     = Some (''telegram_invite_with_plus'', ''group'')
   \<and> filter_and_classify_link ''https://t.me/mychannel''
     = Some (''telegram_invite_without_plus'', ''group'')
   \<and> filter_and_classify_link ''https://t.me/+15551234567'' = None
   \<and> filter_and_classify_link ''https://t.me/bot/xyz'' = None
   \<and> filter_and_classify_link ''https://t.me/user/42'' = None
   \<and> filter_and_classify_link ''https://chat.whatsapp.com/ABC123'' = Some (''whatsapp'', ''group'')
   \<and> filter_and_classify_link ''https://wa.me/15551234567'' = None"
  by code_simp

text \<open>
  Claim C4 says that a \<^verbatim>\<open>t.me\<close> link whose only path segment is a plus sign and 7 to
  12 digits is rejected. The guard \<^verbatim>\<open>len(first_segment) <= 12\<close> counts the plus sign,
  so the digit test is reached with at most 11 digits: eleven digits are rejected,
  twelve digits pass the validity check and are classified as an invite with plus.
\<close>

theorem phone_check_accepts_twelve_digits:
  "\<not> is_valid_telegram_link ''https://t.me/+12345678901''
   \<and> is_valid_telegram_link ''https://t.me/+123456789012''
   \<and> filter_and_classify_link ''https://t.me/+123456789012''
     = Some (''telegram_invite_with_plus'', ''group'')"
  by code_simp

text \<open>
  Claim C5 says that the classification returns \<^verbatim>\<open>None\<close> or one of the three subtypes
  \<^verbatim>\<open>whatsapp\<close>, \<^verbatim>\<open>telegram_invite_with_plus\<close>, \<^verbatim>\<open>telegram_invite_without_plus\<close>. A link
  that holds \<^verbatim>\<open>t.me/\<close> after a longer host passes \<^verbatim>\<open>is_valid_telegram_link\<close>, matches
  neither anchored pattern of \<^verbatim>\<open>classify_telegram_link\<close>, and comes back with the
  subtype \<^verbatim>\<open>telegram_unknown\<close>.
\<close>

theorem classification_yields_unknown_subtype:
  "filter_and_classify_link ''https://www.t.me/abc'' = Some (''telegram_unknown'', ''unknown'')"
  by code_simp

section \<open>The pipeline\<close>

text \<open>A classified link whose subtype is not \<^verbatim>\<open>whatsapp\<close> leaves the world as it is,
  whatever the message, its date and the world: the classifier never answers
  \<^verbatim>\<open>telegram\<close>, the only other subtype the loop saves.\<close>

lemma process_link_saves_only_whatsapp:
  assumes "filter_and_classify_link link = Some (platform, link_chat_type)"
    and "platform \<noteq> ''whatsapp''"
  shows "process_link link m account_name message_date source_type w = (None, w)"
proof -
  have "platform \<noteq> ''telegram''"
    using assms
    by (auto simp: filter_and_classify_link_def Let_def split: if_splits prod.splits)
  then show ?thesis
    using assms by (simp add: process_link_def)
qed

text \<open>
  Claim C1 says that backfilling the conversation of three messages (a text with
  \<^verbatim>\<open>https://t.me/+AAA\<close> and \<^verbatim>\<open>https://example.com\<close>, a button to
  \<^verbatim>\<open>https://chat.whatsapp.com/BBB\<close> dated ten days ago, a text file with
  \<^verbatim>\<open>https://t.me/channelname\<close>) persists exactly three links. The classifier accepts
  the three links. The loop saves a Telegram link only under the subtype
  \<^verbatim>\<open>telegram\<close>, which the classifier never returns, so it drops both Telegram links
  whatever the message and the world. The WhatsApp link of the second message reaches
  the date test, which compares the naive \<^verbatim>\<open>datetime.now()\<close> with the message's
  timezone-aware date and raises \<^verbatim>\<open>TypeError\<close>; only the handler around the dialog
  catches it, so the third message is never read. The backfill persists no link,
  logs the one exception and downloads nothing.
\<close>

theorem backfill_scenario_persists_no_link:
  "filter_and_classify_link ''https://t.me/+AAA'' = Some (''telegram_invite_with_plus'', ''group'')
   \<and> filter_and_classify_link ''https://t.me/channelname''
     = Some (''telegram_invite_without_plus'', ''group'')
   \<and> filter_and_classify_link ''https://chat.whatsapp.com/BBB'' = Some (''whatsapp'', ''group'')
   \<and> filter_and_classify_link ''https://example.com'' = None
   \<and> process_link ''https://t.me/+AAA'' m account_name message_date source_type w = (None, w)
   \<and> process_link ''https://t.me/channelname'' m account_name message_date source_type w
     = (None, w)
   \<and> fst (process_message message2 ''account'' scenario_client world0) = Some TypeError
   \<and> tbl_links (db (collect_old_messages [[message1, message2, message3]]
         ''account'' scenario_client world0)) = []
   \<and> logged (collect_old_messages [[message1, message2, message3]]
         ''account'' scenario_client world0) = [TypeError]
   \<and> downloads (collect_old_messages [[message1, message2, message3]]
         ''account'' scenario_client world0) = 0"
proof -
  have plus: "filter_and_classify_link ''https://t.me/+AAA''
      = Some (''telegram_invite_with_plus'', ''group'')"
    by code_simp
  have name: "filter_and_classify_link ''https://t.me/channelname''
      = Some (''telegram_invite_without_plus'', ''group'')"
    by code_simp
  have wa: "filter_and_classify_link ''https://chat.whatsapp.com/BBB''
      = Some (''whatsapp'', ''group'')"
    by code_simp
  have other: "filter_and_classify_link ''https://example.com'' = None"
    by code_simp
  have drop_plus:
    "process_link ''https://t.me/+AAA'' m account_name message_date source_type w = (None, w)"
    using plus by (rule process_link_saves_only_whatsapp) simp
  have drop_name:
    "process_link ''https://t.me/channelname'' m account_name message_date source_type w
      = (None, w)"
    using name by (rule process_link_saves_only_whatsapp) simp
  have raised: "fst (process_message message2 ''account'' scenario_client world0) = Some TypeError"
    by code_simp
  have rows: "tbl_links (db (collect_old_messages [[message1, message2, message3]]
         ''account'' scenario_client world0)) = []"
    by code_simp
  have log: "logged (collect_old_messages [[message1, message2, message3]]
         ''account'' scenario_client world0) = [TypeError]"
    by code_simp
  have none: "downloads (collect_old_messages [[message1, message2, message3]]
         ''account'' scenario_client world0) = 0"
    by code_simp
  from plus name wa other drop_plus drop_name raised rows log none show ?thesis
    by blast
qed

text \<open>With naive dates of the same readings the date test answers and the third
  message is read; the WhatsApp link is then the only one persisted.\<close>

lemma backfill_with_naive_dates_persists_one_link:
  "map col_url (tbl_links (db (collect_old_messages
      [[with_naive_date message1, with_naive_date message2, with_naive_date message3]]
      ''account'' scenario_client world0)))
   = [''https://chat.whatsapp.com/BBB'']"
  by code_simp

text \<open>
  Claim C9 says that the comment extractor the per-message pipeline invokes examines
  at most 100 top-level replies. \<^verbatim>\<open>process_message\<close> calls the collector's own
  \<^verbatim>\<open>extract_comment_links\<close>, which iterates without a limit: on a post with 101
  comments it ends without an exception and has examined all 101.
\<close>

theorem comment_extractor_unbounded:
  "fst (process_message post ''account'' busy_client world0) = None
   \<and> replies_examined (snd (process_message post ''account'' busy_client world0)) = 101"
  by code_simp

section \<open>The coordinator\<close>

text \<open>
  Claim C7, as the code has it: when collection is already running
  \<^verbatim>\<open>start_collection\<close> changes nothing; when no session is configured it changes
  nothing either; otherwise it sets the collecting flag, resets the stop signal,
  empties the client list and the collector's own set of processed files, and leaves
  the file extractor's document cache and the database as they are.
\<close>

theorem start_collection_effect:
  "(collecting w \<longrightarrow> start_collection sessions w = w)
   \<and> (\<not> collecting w \<and> sessions = [] \<longrightarrow> start_collection sessions w = w)
   \<and> (\<not> collecting w \<and> sessions \<noteq> [] \<longrightarrow>
        collecting (start_collection sessions w)
        \<and> \<not> stop_event (start_collection sessions w)
        \<and> clients (start_collection sessions w) = []
        \<and> processed_files (start_collection sessions w) = {}
        \<and> file_cache (start_collection sessions w) = file_cache w
        \<and> db (start_collection sessions w) = db w)"
  by (simp add: start_collection_def)

text \<open>The three cases at concrete worlds: one that is collecting, one that is idle with
  no session, one that is idle with a session.\<close>

theorem start_collection_effect_witness:
  "start_collection [''main''] world0 = world0
   \<and> start_collection [] idle_world = idle_world
   \<and> collecting (start_collection [''main''] idle_world)
   \<and> \<not> stop_event (start_collection [''main''] idle_world)
   \<and> clients (start_collection [''main''] idle_world) = []
   \<and> processed_files (start_collection [''main''] idle_world) = {}
   \<and> file_cache (start_collection [''main''] idle_world) = file_cache idle_world"
  using start_collection_effect [of world0 "[''main'']"]
    start_collection_effect [of idle_world "[]"]
    start_collection_effect [of idle_world "[''main'']"]
  by (simp add: world0_def idle_world_def)

text \<open>Claim C7 as stated fails: started from an idle world with one session, the
  document cache still holds its entry; started with no session, the collecting flag
  stays false.\<close>

theorem start_collection_keeps_file_cache:
  "file_cache (start_collection [''main''] idle_world) \<noteq> []
   \<and> \<not> collecting (start_collection [] idle_world)"
  by (simp add: start_collection_def idle_world_def world0_def)


section \<open>The file extractor and its cache\<close>

lemma map_of_dict_set: "map_of (dict_set d k v) k = Some v"
  by (induction d) auto

lemma recorded_after_add:
  "is_file_already_processed (add_to_processed_cache now k h n c) k x"
  by (simp add: is_file_already_processed_def add_to_processed_cache_def Let_def map_of_dict_set)

lemma cached_returns_early:
  assumes "is_file_already_processed (file_cache w) (fst (get_file_identifier m)) []"
  shows "extract_links_from_file cl m w = ([], w)"
  using assms by (simp add: extract_links_from_file_def Let_def split: option.splits)

text \<open>
  Claim C8, as the code has it: after the file extractor processes an attachment of a
  supported type that is not cached yet, is within the size limit and downloads, its
  identifier is in the cache whatever the number of links found (zero included), the
  download was requested once, and a later message carrying the same attachment
  returns at once, with no download, whatever the client would answer. An attachment
  of unsupported type returns at once as well: it is neither downloaded nor recorded.
\<close>

theorem supported_attachment_recorded:
  assumes "msg_file m = Some f"
  shows "(is_file_supported (filename_of f) (mime_of f)
          \<and> \<not> is_file_already_processed (file_cache w) (fst (get_file_identifier m)) []
          \<and> file_size f \<le> MAX_FILE_SIZE \<and> download_ok (download_media cl (msg_id m)) \<longrightarrow>
            is_file_already_processed (file_cache (snd (extract_links_from_file cl m w)))
              (fst (get_file_identifier m)) []
            \<and> downloads (snd (extract_links_from_file cl m w)) = downloads w + 1
            \<and> (\<forall>cl' m'. msg_file m' = msg_file m \<longrightarrow>
                 extract_links_from_file cl' m' (snd (extract_links_from_file cl m w))
                   = ([], snd (extract_links_from_file cl m w))))
       \<and> (\<not> is_file_supported (filename_of f) (mime_of f) \<longrightarrow>
            extract_links_from_file cl m w = ([], w))"
proof -
  let ?id = "fst (get_file_identifier m)"
  let ?w' = "snd (extract_links_from_file cl m w)"
  have ident: "?id \<noteq> []"
    using assms by (simp add: get_file_identifier_def Let_def str_int_def split: option.splits)
  have same: "get_file_identifier m' = get_file_identifier m" if "msg_file m' = msg_file m" for m'
    using that by (simp add: get_file_identifier_def)
  {
    assume sup: "is_file_supported (filename_of f) (mime_of f)"
      and new: "\<not> is_file_already_processed (file_cache w) ?id []"
      and small: "file_size f \<le> MAX_FILE_SIZE"
      and ok: "download_ok (download_media cl (msg_id m))"
    from new have new': "\<not> is_file_already_processed (file_cache w) ?id h" for h
      by (simp add: is_file_already_processed_def split: option.splits)
    obtain found where run: "extract_links_from_file cl m w =
        (found, w\<lparr>downloads := downloads w + 1,
                  file_cache := add_to_processed_cache (clock w) ?id
                    (md5 (download_media cl (msg_id m))) (length found) (file_cache w)\<rparr>)"
      using assms sup new' small ok ident
      by (simp add: extract_links_from_file_def download_file_with_progress_def Let_def)
    have cached: "is_file_already_processed (file_cache ?w') ?id []"
      by (simp add: run recorded_after_add)
    have count: "downloads ?w' = downloads w + 1"
      by (simp add: run)
    have again: "extract_links_from_file cl' m' ?w' = ([], ?w')"
      if "msg_file m' = msg_file m" for cl' m'
      using cached same [OF that] by (simp add: cached_returns_early)
    note cached count again
  }
  moreover have "extract_links_from_file cl m w = ([], w)"
    if "\<not> is_file_supported (filename_of f) (mime_of f)"
    using that assms by (simp add: extract_links_from_file_def Let_def)
  ultimately show ?thesis by blast
qed

text \<open>An empty text file, which yields no link, is recorded and not downloaded a
  second time; the archive is returned at once.\<close>

theorem supported_attachment_recorded_witness:
  "is_file_already_processed
      (file_cache (snd (extract_links_from_file empty_txt_client empty_txt_message world0)))
      (fst (get_file_identifier empty_txt_message)) []
   \<and> fst (extract_links_from_file empty_txt_client empty_txt_message world0) = []
   \<and> downloads (snd (extract_links_from_file empty_txt_client empty_txt_message world0)) = 1
   \<and> extract_links_from_file scenario_client empty_txt_message
        (snd (extract_links_from_file empty_txt_client empty_txt_message world0))
      = ([], snd (extract_links_from_file empty_txt_client empty_txt_message world0))
   \<and> extract_links_from_file scenario_client archive_message world0 = ([], world0)"
proof -
  have f: "msg_file empty_txt_message = Some empty_txt"
    by (simp add: empty_txt_message_def)
  have sup: "is_file_supported (filename_of empty_txt) (mime_of empty_txt)"
    by code_simp
  have new: "\<not> is_file_already_processed (file_cache world0)
               (fst (get_file_identifier empty_txt_message)) []"
    by (simp add: is_file_already_processed_def world0_def)
  have small: "file_size empty_txt \<le> MAX_FILE_SIZE"
    by (simp add: empty_txt_def MAX_FILE_SIZE_def)
  have ok: "download_ok (download_media empty_txt_client (msg_id empty_txt_message))"
    by (simp add: empty_txt_client_def)
  have zero: "fst (extract_links_from_file empty_txt_client empty_txt_message world0) = []"
    by code_simp
  have d0: "downloads world0 = 0"
    by (simp add: world0_def)
  have g: "msg_file archive_message = Some archive_zip"
    by (simp add: archive_message_def)
  have unsup: "\<not> is_file_supported (filename_of archive_zip) (mime_of archive_zip)"
    by code_simp
  show ?thesis
    using supported_attachment_recorded [OF f, of world0 empty_txt_client]
      supported_attachment_recorded [OF g, of world0 scenario_client]
      sup new small ok zero d0 unsup
    by simp
qed

text \<open>Claim C8 as stated fails on an attachment of unsupported type: after the
  extractor has processed the archive, its identifier is not in the cache.\<close>

theorem unsupported_attachment_not_recorded:
  "fst (get_file_identifier archive_message) = ''backup.zip_9002_2048''
   \<and> \<not> is_file_already_processed
       (file_cache (snd (extract_links_from_file scenario_client archive_message world0)))
       (fst (get_file_identifier archive_message)) []"
  by code_simp

subsection \<open>Capacity and eviction\<close>

lemma foldl_dict_del: "foldl dict_del c ks = filter (\<lambda>kv. fst kv \<notin> set ks) c"
proof (induction ks arbitrary: c)
  case Nil
  then show ?case by simp
next
  case (Cons k ks)
  have "foldl dict_del (dict_del c k) ks = filter (\<lambda>kv. fst kv \<notin> set ks) (dict_del c k)"
    by (rule Cons.IH)
  also have "\<dots> = filter (\<lambda>kv. fst kv \<notin> set (k # ks)) c"
    by (auto simp: dict_del_def intro: filter_cong)
  finally show ?case by simp
qed

lemma keys_dict_set:
  "map fst (dict_set d k v) = (if k \<in> set (map fst d) then map fst d else map fst d @ [k])"
proof (induction d)
  case Nil
  then show ?case by simp
next
  case (Cons kv d)
  obtain k' v' where kv: "kv = (k', v')"
    by (cases kv)
  show ?case
  proof (cases "k' = k")
    case True
    then show ?thesis by (simp add: kv)
  next
    case False
    then show ?thesis using Cons.IH by (simp add: kv)
  qed
qed

lemma distinct_dict_set: "distinct (map fst d) \<Longrightarrow> distinct (map fst (dict_set d k v))"
  by (simp add: keys_dict_set)

lemma length_dict_set: "length (dict_set d k v) \<le> Suc (length d)"
proof -
  have "length (map fst (dict_set d k v)) \<le> Suc (length d)"
    by (simp add: keys_dict_set)
  then show ?thesis by simp
qed

text \<open>Removing the entries of a set of present keys shortens a dictionary by the size
  of the set.\<close>

lemma length_evict:
  assumes "distinct (map fst c)" "E \<subseteq> set (map fst c)"
  shows "length (filter (\<lambda>kv. fst kv \<notin> E) c) = length c - card E"
proof -
  have "map fst (filter (\<lambda>kv. fst kv \<in> E) c) = filter (\<lambda>k. k \<in> E) (map fst c)"
    by (simp add: filter_map comp_def)
  moreover have "distinct (filter (\<lambda>k. k \<in> E) (map fst c))"
    using assms(1) by simp
  moreover have "set (filter (\<lambda>k. k \<in> E) (map fst c)) = E"
    using assms(2) by auto
  ultimately have "length (filter (\<lambda>kv. fst kv \<in> E) c) = card E"
    by (metis distinct_card length_map)
  moreover have "length (filter (\<lambda>kv. fst kv \<in> E) c)
      + length (filter (\<lambda>kv. fst kv \<notin> E) c) = length c"
    by (rule sum_length_filter_compl)
  ultimately show ?thesis by simp
qed

lemma oldest_keys_distinct: "distinct (map fst c) \<Longrightarrow> distinct (oldest_keys c)"
  by (simp add: oldest_keys_def)

lemma oldest_keys_subset: "set (oldest_keys c) \<subseteq> set (map fst c)"
proof -
  have "set (oldest_keys c) \<subseteq> set (sort_key (entry_timestamp c) (map fst c))"
    unfolding oldest_keys_def by (rule set_take_subset)
  then show ?thesis by simp
qed

lemma oldest_keys_length: "length (oldest_keys c) = min 100 (length c)"
  by (simp add: oldest_keys_def min.commute)

lemma oldest_keys_card:
  assumes "distinct (map fst c)" "100 \<le> length c"
  shows "card (set (oldest_keys c)) = 100"
  using assms oldest_keys_distinct [OF assms(1)] oldest_keys_length [of c]
  by (simp add: distinct_card)

text \<open>No key that stays was last seen before a key that goes.\<close>

lemma oldest_keys_oldest:
  assumes "distinct (map fst c)" "k \<in> set (oldest_keys c)"
    and "k' \<in> set (map fst c) - set (oldest_keys c)"
  shows "entry_timestamp c k \<le> entry_timestamp c k'"
proof -
  let ?s = "sort_key (entry_timestamp c) (map fst c)"
  have split: "?s = take 100 ?s @ drop 100 ?s"
    by simp
  have "sorted (map (entry_timestamp c) ?s)"
    by (rule sorted_sort_key)
  then have "sorted (map (entry_timestamp c) (take 100 ?s) @ map (entry_timestamp c) (drop 100 ?s))"
    by (metis split map_append)
  then have le: "\<forall>x \<in> set (take 100 ?s). \<forall>y \<in> set (drop 100 ?s).
      entry_timestamp c x \<le> entry_timestamp c y"
    by (auto simp: sorted_append)
  have "k' \<in> set ?s"
    using assms(3) by simp
  then have "k' \<in> set (take 100 ?s) \<union> set (drop 100 ?s)"
    by (metis split set_append)
  then have "k' \<in> set (drop 100 ?s)"
    using assms(3) by (auto simp: oldest_keys_def)
  moreover have "k \<in> set (take 100 ?s)"
    using assms(2) by (simp add: oldest_keys_def)
  ultimately show ?thesis using le by blast
qed

lemma add_keeps_inv:
  assumes "cache_inv c"
  shows "cache_inv (add_to_processed_cache now k h n c)"
proof (cases "length c \<ge> MAX_CACHE_SIZE")
  case True
  let ?E = "set (oldest_keys c)"
  let ?c = "filter (\<lambda>kv. fst kv \<notin> ?E) c"
  have d: "distinct (map fst c)" and len: "length c = 1000"
    using assms True by (simp_all add: cache_inv_def MAX_CACHE_SIZE_def)
  have "length ?c = length c - card ?E"
    using d oldest_keys_subset by (rule length_evict)
  then have "length ?c = 900"
    using oldest_keys_card [OF d] len by simp
  moreover have "distinct (map fst ?c)"
    using d by (simp add: distinct_map_filter)
  ultimately show ?thesis
    using True length_dict_set [of ?c k "\<lparr>hash = h, timestamp = now, links_found = n\<rparr>"]
    by (simp add: cache_inv_def add_to_processed_cache_def foldl_dict_del distinct_dict_set
        MAX_CACHE_SIZE_def)
next
  case False
  then show ?thesis
    using assms length_dict_set [of c k "\<lparr>hash = h, timestamp = now, links_found = n\<rparr>"]
    by (simp add: cache_inv_def add_to_processed_cache_def distinct_dict_set)
qed

lemma record_all_inv: "cache_inv c \<Longrightarrow> cache_inv (record_all ops c)"
  by (induction ops c rule: record_all.induct) (simp_all add: add_keeps_inv)

lemma map_of_dict_set_other:
  "map_of (dict_set d k v) k' = (if k' = k then Some v else map_of d k')"
proof (induction d)
  case Nil
  then show ?case by simp
next
  case (Cons kv d)
  obtain k0 v0 where kv: "kv = (k0, v0)"
    by (cases kv)
  show ?case
    using Cons.IH by (auto simp: kv map_of_dict_set)
qed

lemma map_of_evict:
  "map_of (filter (\<lambda>kv. fst kv \<notin> E) c) k' = (if k' \<in> E then None else map_of c k')"
proof (induction c)
  case Nil
  then show ?case by simp
next
  case (Cons kv c)
  obtain k0 v0 where kv: "kv = (k0, v0)"
    by (cases kv)
  show ?case
    using Cons.IH by (auto simp: kv)
qed

lemma entry_timestamp_of_entry:
  assumes "distinct (map fst c)" "(k, e) \<in> set c"
  shows "entry_timestamp c k = timestamp e"
  using assms by (simp add: entry_timestamp_def)

text \<open>
  Claim C6. After any sequence of record operations on the empty cache the cache
  holds at most \<open>MAX_CACHE_SIZE\<close> entries, and after a record operation the recorded
  identifier maps to the new entry. A record operation that finds the cache at
  capacity evicts a set \<open>E\<close> of keys that is one tenth of the capacity and holds the
  oldest entries: the time stamp stored in an entry that goes is never after the
  time stamp stored in an entry that stays. Apart from the recorded identifier, the
  keys of \<open>E\<close> are gone from the result and every other key keeps its entry.
\<close>

theorem cache_bounded_and_evicts_oldest:
  "length (record_all ops []) \<le> MAX_CACHE_SIZE
   \<and> map_of (add_to_processed_cache now k h n c) k
       = Some \<lparr>hash = h, timestamp = now, links_found = n\<rparr>
   \<and> (distinct (map fst c) \<and> length c = MAX_CACHE_SIZE \<longrightarrow>
        (\<exists>E. E \<subseteq> set (map fst c) \<and> card E * 10 = MAX_CACHE_SIZE
           \<and> (\<forall>k1 e1 k2 e2. (k1, e1) \<in> set c \<and> (k2, e2) \<in> set c \<and> k1 \<in> E \<and> k2 \<notin> E
                 \<longrightarrow> timestamp e1 \<le> timestamp e2)
           \<and> (\<forall>k'. map_of (add_to_processed_cache now k h n c) k'
                 = (if k' = k then Some \<lparr>hash = h, timestamp = now, links_found = n\<rparr>
                    else if k' \<in> E then None else map_of c k'))))"
proof -
  have "cache_inv (record_all ops [])"
    by (rule record_all_inv) (simp add: cache_inv_def)
  then have bound: "length (record_all ops []) \<le> MAX_CACHE_SIZE"
    by (simp add: cache_inv_def)
  have new: "map_of (add_to_processed_cache now k h n c) k
      = Some \<lparr>hash = h, timestamp = now, links_found = n\<rparr>"
    by (simp add: add_to_processed_cache_def Let_def map_of_dict_set)
  {
    assume d: "distinct (map fst c)" and full: "length c = MAX_CACHE_SIZE"
    let ?E = "set (oldest_keys c)"
    have sub: "?E \<subseteq> set (map fst c)"
      by (rule oldest_keys_subset)
    have tenth: "card ?E * 10 = MAX_CACHE_SIZE"
      using oldest_keys_card [OF d] full by (simp add: MAX_CACHE_SIZE_def)
    have order: "timestamp e1 \<le> timestamp e2"
      if "(k1, e1) \<in> set c" "(k2, e2) \<in> set c" "k1 \<in> ?E" "k2 \<notin> ?E" for k1 e1 k2 e2
    proof -
      have "k2 \<in> set (map fst c) - ?E"
        using that(2,4) by force
      then have "entry_timestamp c k1 \<le> entry_timestamp c k2"
        using d that(3) by (intro oldest_keys_oldest)
      then show ?thesis
        using d that(1,2) by (simp add: entry_timestamp_of_entry)
    qed
    have result: "map_of (add_to_processed_cache now k h n c) k'
        = (if k' = k then Some \<lparr>hash = h, timestamp = now, links_found = n\<rparr>
           else if k' \<in> ?E then None else map_of c k')" for k'
      using full
      by (simp add: add_to_processed_cache_def foldl_dict_del map_of_dict_set_other map_of_evict)
    have "\<exists>E. E \<subseteq> set (map fst c) \<and> card E * 10 = MAX_CACHE_SIZE
           \<and> (\<forall>k1 e1 k2 e2. (k1, e1) \<in> set c \<and> (k2, e2) \<in> set c \<and> k1 \<in> E \<and> k2 \<notin> E
                 \<longrightarrow> timestamp e1 \<le> timestamp e2)
           \<and> (\<forall>k'. map_of (add_to_processed_cache now k h n c) k'
                 = (if k' = k then Some \<lparr>hash = h, timestamp = now, links_found = n\<rparr>
                    else if k' \<in> E then None else map_of c k'))"
      using sub tenth order result by blast
  }
  with bound new show ?thesis by blast
qed

lemma full_cache_length: "length full_cache = MAX_CACHE_SIZE"
  by (simp add: full_cache_def MAX_CACHE_SIZE_def)

lemma full_cache_distinct: "distinct (map fst full_cache)"
proof -
  have "inj_on (\<lambda>i. replicate i CHR ''f'') (set [0 ..< 1000])"
    by (rule inj_onI) (metis length_replicate)
  then show ?thesis
    by (simp add: full_cache_def comp_def distinct_map)
qed

text \<open>The cache of a thousand entries is at capacity; recording into it stores the new
  entry and evicts a hundred keys, none seen after one that stays.\<close>

theorem cache_bounded_and_evicts_oldest_witness:
  "length (record_all [(5, ''a.txt_1_2'', [], 0)] []) \<le> MAX_CACHE_SIZE
   \<and> distinct (map fst full_cache) \<and> length full_cache = MAX_CACHE_SIZE
   \<and> map_of (add_to_processed_cache 2000 ''a.txt_1_2'' ''0f'' 3 full_cache) ''a.txt_1_2''
       = Some \<lparr>hash = ''0f'', timestamp = 2000, links_found = 3\<rparr>
   \<and> (\<exists>E. E \<subseteq> set (map fst full_cache) \<and> card E * 10 = MAX_CACHE_SIZE
         \<and> (\<forall>k1 e1 k2 e2. (k1, e1) \<in> set full_cache \<and> (k2, e2) \<in> set full_cache
               \<and> k1 \<in> E \<and> k2 \<notin> E \<longrightarrow> timestamp e1 \<le> timestamp e2)
         \<and> (\<forall>k'. map_of (add_to_processed_cache 2000 ''a.txt_1_2'' ''0f'' 3 full_cache) k'
               = (if k' = ''a.txt_1_2''
                  then Some \<lparr>hash = ''0f'', timestamp = 2000, links_found = 3\<rparr>
                  else if k' \<in> E then None else map_of full_cache k')))"
  using cache_bounded_and_evicts_oldest
      [of "[(5, ''a.txt_1_2'', [], 0)]" 2000 "''a.txt_1_2''" "''0f''" 3 full_cache]
    full_cache_length full_cache_distinct
  by blast

section \<open>The link store\<close>

lemma save_link_returns_None:
  "fst (save_link url platform a ct ci md st w) = Inr PyNone"
  by (auto simp: save_link_def split: option.splits prod.splits sum.splits)

text \<open>A call leaves the table as it is or appends one row whose URL was not there.\<close>

lemma save_link_links:
  "tbl_links (db (snd (save_link url platform a ct ci md st w))) = tbl_links (db w)
   \<or> (\<exists>u row. url = Some u \<and> u \<noteq> [] \<and> col_url row = u
        \<and> u \<notin> col_url ` set (tbl_links (db w))
        \<and> tbl_links (db (snd (save_link url platform a ct ci md st w)))
            = tbl_links (db w) @ [row])"
  by (auto simp: save_link_def save_link_try_def Let_def list_ex_iff
           split: option.splits db_status.splits)

lemma save_link_distinct:
  assumes "distinct (map col_url (tbl_links (db w)))"
  shows "distinct (map col_url (tbl_links (db (snd (save_link url platform a ct ci md st w)))))"
  using assms save_link_links [of url platform a ct ci md st w] by auto

lemma save_all_distinct:
  "distinct (map col_url (tbl_links (db w))) \<Longrightarrow>
   distinct (map col_url (tbl_links (db (save_all calls w))))"
proof (induction calls arbitrary: w)
  case Nil
  then show ?case by simp
next
  case (Cons c calls)
  obtain st url platform a ct ci md sty where c: "c = (st, url, platform, a, ct, ci, md, sty)"
    by (cases c) auto
  have "distinct (map col_url (tbl_links (db (w\<lparr>status := st\<rparr>))))"
    using Cons.prems by simp
  then have "distinct (map col_url (tbl_links (db (snd (save_link url platform a ct ci md sty
                (w\<lparr>status := st\<rparr>))))))"
    by (rule save_link_distinct)
  then show ?case
    unfolding c by (simp add: Cons.IH)
qed

lemma count_distinct_key:
  "distinct (map f xs) \<Longrightarrow>
   length (filter (\<lambda>r. f r = u) xs) = (if u \<in> f ` set xs then 1 else 0)"
  by (induction xs) auto

lemma save_link_stores:
  assumes "u \<noteq> []" "status w = Up"
  shows "u \<in> col_url ` set (tbl_links (db (snd (save_link (Some u) (Some p) a ct ci md st w))))"
  using assms by (auto simp: save_link_def save_link_try_def Let_def list_ex_iff)

lemma save_link_present:
  assumes "u \<in> col_url ` set (tbl_links (db w))"
  shows "db (snd (save_link (Some u) platform a ct ci md st w)) = db w"
  using assms by (auto simp: save_link_def save_link_try_def Let_def list_ex_iff
        split: db_status.splits option.splits)

text \<open>
  Claim C3, as the code has it. \<^verbatim>\<open>save_link\<close> reports nothing: every call returns
  \<^verbatim>\<open>None\<close>. On a table whose URLs are distinct (the \<^verbatim>\<open>UNIQUE\<close> constraint), any
  sequence of calls, whatever their arguments and whatever state of the environment
  each one meets, leaves the URLs distinct, so that no URL has more than one row; and
  when the database answers, a first call with a non-empty URL leaves exactly one row
  for it and a second call with that URL, whatever its other arguments, leaves the
  database as the first one left it.
\<close>

theorem save_link_stores_url_once:
  assumes "distinct (map col_url (tbl_links (db w)))"
  shows "fst (save_link url platform a ct ci md st w) = Inr PyNone
    \<and> distinct (map col_url (tbl_links (db (save_all calls w))))
    \<and> (u \<noteq> [] \<and> status w = Up \<longrightarrow>
         length (filter (\<lambda>r. col_url r = u)
           (tbl_links (db (snd (save_link (Some u) (Some p) a ct ci md st w))))) = 1
         \<and> db (snd (save_link (Some u) platform' a' ct' ci' md' st'
                 ((snd (save_link (Some u) (Some p) a ct ci md st w))\<lparr>status := s'\<rparr>)))
           = db (snd (save_link (Some u) (Some p) a ct ci md st w)))"
proof -
  let ?w1 = "snd (save_link (Some u) (Some p) a ct ci md st w)"
  {
    assume h: "u \<noteq> []" "status w = Up"
    have stored: "u \<in> col_url ` set (tbl_links (db ?w1))"
      using h by (rule save_link_stores)
    moreover have "distinct (map col_url (tbl_links (db ?w1)))"
      using assms by (rule save_link_distinct)
    ultimately have one: "length (filter (\<lambda>r. col_url r = u) (tbl_links (db ?w1))) = 1"
      by (simp add: count_distinct_key)
    from stored have "u \<in> col_url ` set (tbl_links (db (?w1\<lparr>status := s'\<rparr>)))"
      by simp
    then have "db (snd (save_link (Some u) platform' a' ct' ci' md' st' (?w1\<lparr>status := s'\<rparr>)))
        = db (?w1\<lparr>status := s'\<rparr>)"
      by (rule save_link_present)
    then have "db (snd (save_link (Some u) platform' a' ct' ci' md' st' (?w1\<lparr>status := s'\<rparr>)))
        = db ?w1"
      by simp
    note one this
  }
  then show ?thesis
    using save_link_returns_None save_all_distinct [OF assms] by blast
qed

text \<open>On the empty database: one row after the first call, the same database after a
  second call from another account, distinct URLs after both.\<close>

theorem save_link_stores_url_once_witness:
  "distinct (map col_url (tbl_links (db world0)))
   \<and> distinct (map col_url (tbl_links (db (save_all
        [(Up, Some ''https://chat.whatsapp.com/BBB'', Some ''whatsapp'', ''first'', ''group'',
          ''77'', None, Some ''text''),
         (Up, Some ''https://chat.whatsapp.com/BBB'', Some ''whatsapp'', ''second'', ''group'',
          ''78'', None, Some ''button'')] world0))))
   \<and> length (filter (\<lambda>r. col_url r = ''https://chat.whatsapp.com/BBB'')
        (tbl_links (db (snd (save_link (Some ''https://chat.whatsapp.com/BBB'') (Some ''whatsapp'')
           ''first'' ''group'' ''77'' None (Some ''text'') world0))))) = 1
   \<and> db (snd (save_link (Some ''https://chat.whatsapp.com/BBB'') (Some ''whatsapp'')
           ''second'' ''group'' ''78'' None (Some ''button'')
           ((snd (save_link (Some ''https://chat.whatsapp.com/BBB'') (Some ''whatsapp'')
              ''first'' ''group'' ''77'' None (Some ''text'') world0))\<lparr>status := Up\<rparr>)))
     = db (snd (save_link (Some ''https://chat.whatsapp.com/BBB'') (Some ''whatsapp'')
           ''first'' ''group'' ''77'' None (Some ''text'') world0))"
proof -
  have d: "distinct (map col_url (tbl_links (db world0)))"
    by (simp add: world0_def)
  have up: "status world0 = Up"
    by (simp add: world0_def)
  show ?thesis
    using save_link_stores_url_once [OF d, where u = "''https://chat.whatsapp.com/BBB''"
        and p = "''whatsapp''" and a = "''first''" and ct = "''group''" and ci = "''77''"
        and md = None and st = "Some ''text''" and platform' = "Some ''whatsapp''"
        and a' = "''second''" and ct' = "''group''" and ci' = "''78''" and md' = None
        and st' = "Some ''button''" and s' = Up
        and calls = "[(Up, Some ''https://chat.whatsapp.com/BBB'', Some ''whatsapp'', ''first'',
                       ''group'', ''77'', None, Some ''text''),
                      (Up, Some ''https://chat.whatsapp.com/BBB'', Some ''whatsapp'', ''second'',
                       ''group'', ''78'', None, Some ''button'')]"] d up
    by blast
qed

text \<open>Claim C3 as stated fails: the first call for a URL does not report
  \<^verbatim>\<open>inserted = true\<close>; it returns \<^verbatim>\<open>None\<close>.\<close>

theorem save_link_reports_nothing:
  "fst (save_link (Some ''https://chat.whatsapp.com/BBB'') (Some ''whatsapp'')
          ''first'' ''group'' ''77'' None (Some ''text'') world0) \<noteq> Inr (PyBool True)"
  by (simp add: save_link_def split: option.splits prod.splits sum.splits)

text \<open>
  Claim C10. \<^verbatim>\<open>save_link\<close> never hands an exception to its caller: whatever the
  arguments and the state of the environment, it returns \<^verbatim>\<open>None\<close>. Called with no
  URL or with the empty URL it returns at once: the world, with its database and its
  count of opened connections, is unchanged.
\<close>

theorem save_link_never_raises:
  "fst (save_link url platform source_account chat_type chat_id message_date source_type w)
     = Inr PyNone
   \<and> (url = None \<or> url = Some [] \<longrightarrow>
        snd (save_link url platform source_account chat_type chat_id message_date source_type w)
          = w)"
  by (auto simp: save_link_def split: option.splits prod.splits sum.splits)

text \<open>With no URL and with the empty URL, on a database that would answer.\<close>

theorem save_link_never_raises_witness:
  "fst (save_link None (Some ''whatsapp'') ''account'' ''group'' ''77'' None None world0)
     = Inr PyNone
   \<and> snd (save_link None (Some ''whatsapp'') ''account'' ''group'' ''77'' None None world0)
     = world0
   \<and> snd (save_link (Some []) (Some ''whatsapp'') ''account'' ''group'' ''77'' None None world0)
     = world0"
  using save_link_never_raises
      [of None "Some ''whatsapp''" "''account''" "''group''" "''77''" None None world0]
    save_link_never_raises
      [of "Some []" "Some ''whatsapp''" "''account''" "''group''" "''77''" None None world0]
  by simp

end
